theory Spec2Isabelle
  imports Complex_Main
begin

section \<open>Python values used by the models\<close>

text \<open>
  \<open>Optional[Union[str, int, float, bool]]\<close>, the type of the \<open>default_value\<close> attribute,
  is \<open>scalar option\<close>; a decoded JSON value (\<open>Dict[str, Any]\<close>, the claims of a token)
  is \<open>json\<close>, a JSON object being an association list.
\<close>

datatype scalar = SStr string | SInt int | SFloat real | SBool bool

datatype json =
    JNull
  | JBool bool
  | JInt int
  | JFloat real
  | JStr string
  | JArr "json list"
  | JObj "(string \<times> json) list"

text \<open>Python truthiness of a decoded JSON value (\<open>bool(v)\<close>).\<close>

fun truthy :: "json \<Rightarrow> bool" where
  "truthy JNull = False"
| "truthy (JBool b) = b"
| "truthy (JInt n) = (n \<noteq> 0)"
| "truthy (JFloat x) = (x \<noteq> 0)"
| "truthy (JStr s) = (s \<noteq> [])"
| "truthy (JArr xs) = (xs \<noteq> [])"
| "truthy (JObj kvs) = (kvs \<noteq> [])"

text \<open>Truthiness of an \<open>Optional[str]\<close>: \<open>None\<close> and the empty string are falsy.\<close>

fun truthy_str :: "string option \<Rightarrow> bool" where
  "truthy_str None = False"
| "truthy_str (Some s) = (s \<noteq> [])"

text \<open>
  The exceptions the modelled code raises or catches. \<open>HTTPException status_code detail\<close>
  is FastAPI's; \<open>KeyError k\<close> is a failed \<open>d[k]\<close>; \<open>ValidationError\<close> is pydantic
  rejecting a record. \<open>ExpiredSignatureError\<close> and \<open>InvalidIssuerError\<close> are PyJWT's, both
  subclasses of its \<open>InvalidTokenError\<close>; the constructor \<open>InvalidTokenError\<close> stands for
  every other exception of that class, and \<open>OtherException\<close> for an exception of no class
  named here (a network error, PyJWT's \<open>InvalidKeyError\<close>). The string is the message.
\<close>

datatype exc =
    FileNotFoundError
  | JSONDecodeError
  | ValidationError string
  | KeyError string
  | AttributeError string
  | TypeError string
  | HTTPException nat string
  | ExpiredSignatureError string
  | InvalidIssuerError string
  | InvalidTokenError string
  | OtherException string

text \<open>
  \<open>xs[lo:hi]\<close> on a list, for arbitrary Python integers: a negative bound counts from the
  end, and both bounds are clamped to \<open>[0, len(xs)]\<close>.
\<close>

definition slice_bound :: "nat \<Rightarrow> int \<Rightarrow> nat" where
  "slice_bound n i = (if i < 0 then nat (max (i + int n) 0) else min (nat i) n)"

definition py_slice :: "'a list \<Rightarrow> int \<Rightarrow> int \<Rightarrow> 'a list" where
  "py_slice xs lo hi =
     (let n = length xs; l = slice_bound n lo; h = slice_bound n hi
      in take (h - l) (drop l xs))"

text \<open>\<open>d.get(k, [])\<close> and, for a \<open>defaultdict(list)\<close>, \<open>d[k].append(v)\<close>.\<close>

definition dict_get :: "(string \<rightharpoonup> string list) \<Rightarrow> string \<Rightarrow> string list" where
  "dict_get d k = (case d k of None \<Rightarrow> [] | Some l \<Rightarrow> l)"

definition dd_append :: "(string \<rightharpoonup> string list) \<Rightarrow> string \<Rightarrow> string \<Rightarrow> (string \<rightharpoonup> string list)" where
  "dd_append d k v = d(k \<mapsto> dict_get d k @ [v])"

text \<open>\<open>[d[k] for k in ks]\<close>: the first missing key raises \<open>KeyError\<close>.\<close>

fun lookup_all :: "(string \<rightharpoonup> 'a) \<Rightarrow> string list \<Rightarrow> exc + 'a list" where
  "lookup_all d [] = Inr []"
| "lookup_all d (k # ks) =
     (case d k of
        None \<Rightarrow> Inl (KeyError k)
      | Some v \<Rightarrow> (case lookup_all d ks of Inl e \<Rightarrow> Inl e | Inr vs \<Rightarrow> Inr (v # vs)))"

section \<open>The entity models (\<open>mock_api/models\<close>)\<close>

type_synonym datetime = string

record Type =
  t_id :: string
  t_name :: string
  t_python_type :: string
  t_description :: string
  t_is_builtin :: bool
  t_is_nullable :: bool
  t_default_value :: "scalar option"
  t_owner_id :: string
  t_account_id :: string
  t_created_at :: datetime
  t_updated_at :: datetime

datatype ValidatorType = LENGTH | RANGE | PATTERN | CUSTOM

record Validator =
  v_id :: string
  v_name :: string
  v_validator_type :: ValidatorType
  v_description :: string
  v_config :: "(string \<times> json) list"
  v_error_message :: string
  v_owner_id :: string
  v_account_id :: string
  v_created_at :: datetime
  v_updated_at :: datetime

record Field =
  f_id :: string
  f_name :: string
  f_type_id :: string
  f_description :: string
  f_is_required :: bool
  f_is_unique :: bool
  f_is_indexed :: bool
  f_default_value :: "scalar option"
  f_validator_ids :: "string list"
  f_namespace :: string
  f_owner_id :: string
  f_account_id :: string
  f_created_at :: datetime
  f_updated_at :: datetime

record Object =
  o_id :: string
  o_name :: string
  o_description :: string
  o_field_ids :: "string list"
  o_namespace :: string
  o_table_name :: string
  o_is_active :: bool
  o_owner_id :: string
  o_account_id :: string
  o_created_at :: datetime
  o_updated_at :: datetime

text \<open>\<open>UserClaims\<close> of \<open>auth/clerk.py\<close>: the caller identity.\<close>

record UserClaims =
  user_id :: string
  account_id :: string
  email :: "string option"

section \<open>The data store (\<open>mock_api/data/store.py\<close>)\<close>

text \<open>
  The attribute \<open>self.fields\<close> is named \<open>fields_dict\<close> here (the record package
  reserves \<open>fields\<close>); every other attribute keeps its name.
\<close>

record DataStore =
  types :: "string \<rightharpoonup> Type"
  validators :: "string \<rightharpoonup> Validator"
  fields_dict :: "string \<rightharpoonup> Field"
  objects :: "string \<rightharpoonup> Object"
  types_by_owner :: "string \<rightharpoonup> string list"
  validators_by_owner :: "string \<rightharpoonup> string list"
  fields_by_owner :: "string \<rightharpoonup> string list"
  objects_by_owner :: "string \<rightharpoonup> string list"
  types_by_account :: "string \<rightharpoonup> string list"
  validators_by_account :: "string \<rightharpoonup> string list"
  fields_by_account :: "string \<rightharpoonup> string list"
  objects_by_account :: "string \<rightharpoonup> string list"

text \<open>\<open>DataStore.__init__\<close>: every dictionary empty.\<close>

definition DataStore_init :: DataStore where
  "DataStore_init =
     \<lparr> types = Map.empty, validators = Map.empty, fields_dict = Map.empty, objects = Map.empty,
       types_by_owner = Map.empty, validators_by_owner = Map.empty,
       fields_by_owner = Map.empty, objects_by_owner = Map.empty,
       types_by_account = Map.empty, validators_by_account = Map.empty,
       fields_by_account = Map.empty, objects_by_account = Map.empty \<rparr>"


subsection \<open>Loading the fixtures\<close>

text \<open>
  The parsed fixtures file: \<open>data.get("types", [])\<close> and its three siblings. A raw record
  is given by what its model constructor makes of it (\<open>Type(**type_data)\<close>): \<open>Inr\<close> the
  validated entity, \<open>Inl\<close> the exception pydantic raises on a malformed record.
\<close>

record fixtures_data =
  data_types :: "(exc + Type) list"
  data_validators :: "(exc + Validator) list"
  data_fields :: "(exc + Field) list"
  data_objects :: "(exc + Object) list"

text \<open>The file at \<open>fixtures_path\<close>: absent, not JSON, or parsed.\<close>

datatype fixtures_file = Missing | Unparsable | Parsed fixtures_data

text \<open>
  The four loops of \<open>load_fixtures\<close>. Each mutates the store in place, so a loop that
  raises returns the store as it is at that moment, with the exception.
\<close>

fun load_types :: "(exc + Type) list \<Rightarrow> DataStore \<Rightarrow> DataStore \<times> exc option" where
  "load_types [] s = (s, None)"
| "load_types (Inl e # rs) s = (s, Some e)"
| "load_types (Inr type_obj # rs) s =
     load_types rs
       (s\<lparr> types := (types s)(t_id type_obj \<mapsto> type_obj),
           types_by_owner := dd_append (types_by_owner s) (t_owner_id type_obj) (t_id type_obj),
           types_by_account := dd_append (types_by_account s) (t_account_id type_obj) (t_id type_obj) \<rparr>)"

fun load_validators :: "(exc + Validator) list \<Rightarrow> DataStore \<Rightarrow> DataStore \<times> exc option" where
  "load_validators [] s = (s, None)"
| "load_validators (Inl e # rs) s = (s, Some e)"
| "load_validators (Inr validator_obj # rs) s =
     load_validators rs
       (s\<lparr> validators := (validators s)(v_id validator_obj \<mapsto> validator_obj),
           validators_by_owner :=
             dd_append (validators_by_owner s) (v_owner_id validator_obj) (v_id validator_obj),
           validators_by_account :=
             dd_append (validators_by_account s) (v_account_id validator_obj) (v_id validator_obj) \<rparr>)"

fun load_fields :: "(exc + Field) list \<Rightarrow> DataStore \<Rightarrow> DataStore \<times> exc option" where
  "load_fields [] s = (s, None)"
| "load_fields (Inl e # rs) s = (s, Some e)"
| "load_fields (Inr field_obj # rs) s =
     load_fields rs
       (s\<lparr> fields_dict := (fields_dict s)(f_id field_obj \<mapsto> field_obj),
           fields_by_owner := dd_append (fields_by_owner s) (f_owner_id field_obj) (f_id field_obj),
           fields_by_account := dd_append (fields_by_account s) (f_account_id field_obj) (f_id field_obj) \<rparr>)"

fun load_objects :: "(exc + Object) list \<Rightarrow> DataStore \<Rightarrow> DataStore \<times> exc option" where
  "load_objects [] s = (s, None)"
| "load_objects (Inl e # rs) s = (s, Some e)"
| "load_objects (Inr object_obj # rs) s =
     load_objects rs
       (s\<lparr> objects := (objects s)(o_id object_obj \<mapsto> object_obj),
           objects_by_owner := dd_append (objects_by_owner s) (o_owner_id object_obj) (o_id object_obj),
           objects_by_account := dd_append (objects_by_account s) (o_account_id object_obj) (o_id object_obj) \<rparr>)"

text \<open>
  \<open>DataStore.load_fixtures\<close>: the store after the call, and the exception if it raised.
\<close>

definition load_fixtures :: "DataStore \<Rightarrow> fixtures_file \<Rightarrow> DataStore \<times> exc option" where
  "load_fixtures s file =
     (case file of
        Missing \<Rightarrow> (s, Some FileNotFoundError)
      | Unparsable \<Rightarrow> (s, Some JSONDecodeError)
      | Parsed data \<Rightarrow>
          (case load_types (data_types data) s of
             (s1, Some e) \<Rightarrow> (s1, Some e)
           | (s1, None) \<Rightarrow>
          (case load_validators (data_validators data) s1 of
             (s2, Some e) \<Rightarrow> (s2, Some e)
           | (s2, None) \<Rightarrow>
          (case load_fields (data_fields data) s2 of
             (s3, Some e) \<Rightarrow> (s3, Some e)
           | (s3, None) \<Rightarrow> load_objects (data_objects data) s3))))"

text \<open>
  \<open>get_data_store\<close>, on the global \<open>_data_store\<close>: the global is assigned the new store
  before \<open>load_fixtures\<close> runs on it, so it stays assigned when the load raises. The result
  is the global afterwards and what the call returns or raises.
\<close>

definition get_data_store :: "DataStore option \<Rightarrow> fixtures_file \<Rightarrow> DataStore option \<times> (exc + DataStore)" where
  "get_data_store g file =
     (case g of
        Some s \<Rightarrow> (Some s, Inr s)
      | None \<Rightarrow>
          (case load_fixtures DataStore_init file of
             (s, Some e) \<Rightarrow> (Some s, Inl e)
           | (s, None) \<Rightarrow> (Some s, Inr s)))"

subsection \<open>Scoped queries\<close>

text \<open>
  Every list operation takes \<open>iter_set\<close>, the order in which Python iterates the set built
  by \<open>set(xs)\<close> followed by \<open>update(ys)\<close>, as a function of the keys inserted, \<open>xs @ ys\<close>.
  Python fixes no order for a set of strings; the order is a parameter, and
  \<open>set_order\<close> says what every set guarantees: each inserted key once.

  The parameters \<open>owner_id\<close> and \<open>account_id\<close> are written \<open>owner\<close> and
  \<open>account\<close>. A pydantic model instance is always truthy, so \<open>if not type_obj\<close> is the test for
  \<open>None\<close>. \<open>Type\<close> and \<open>Validator\<close> have no \<open>namespace\<close> attribute, so
  \<open>getattr(t, 'namespace', '')\<close> is the empty string.
\<close>

definition set_order :: "(string list \<Rightarrow> string list) \<Rightarrow> bool" where
  "set_order iter_set = (\<forall>xs. distinct (iter_set xs) \<and> set (iter_set xs) = set xs)"

definition list_types ::
  "(string list \<Rightarrow> string list) \<Rightarrow> DataStore \<Rightarrow> string \<Rightarrow> string \<Rightarrow> int \<Rightarrow> int \<Rightarrow> string option
     \<Rightarrow> exc + Type list" where
  "list_types iter_set s owner account limit offset namespace =
     (let type_ids = iter_set (dict_get (types_by_owner s) owner
                               @ dict_get (types_by_account s) account)
      in case lookup_all (types s) type_ids of
           Inl e \<Rightarrow> Inl e
         | Inr result \<Rightarrow>
             (let result = (if truthy_str namespace
                            then filter (\<lambda>t. [] = the namespace) result else result)
              in Inr (py_slice result offset (offset + limit))))"

definition get_type :: "DataStore \<Rightarrow> string \<Rightarrow> string \<Rightarrow> string \<Rightarrow> Type option" where
  "get_type s type_id owner account =
     (case types s type_id of
        None \<Rightarrow> None
      | Some type_obj \<Rightarrow>
          if t_owner_id type_obj = owner \<or> t_account_id type_obj = account
          then Some type_obj else None)"

definition list_validators ::
  "(string list \<Rightarrow> string list) \<Rightarrow> DataStore \<Rightarrow> string \<Rightarrow> string \<Rightarrow> int \<Rightarrow> int \<Rightarrow> string option
     \<Rightarrow> exc + Validator list" where
  "list_validators iter_set s owner account limit offset namespace =
     (let validator_ids = iter_set (dict_get (validators_by_owner s) owner
                                    @ dict_get (validators_by_account s) account)
      in case lookup_all (validators s) validator_ids of
           Inl e \<Rightarrow> Inl e
         | Inr result \<Rightarrow>
             (let result = (if truthy_str namespace
                            then filter (\<lambda>v. [] = the namespace) result else result)
              in Inr (py_slice result offset (offset + limit))))"

definition get_validator :: "DataStore \<Rightarrow> string \<Rightarrow> string \<Rightarrow> string \<Rightarrow> Validator option" where
  "get_validator s validator_id owner account =
     (case validators s validator_id of
        None \<Rightarrow> None
      | Some validator_obj \<Rightarrow>
          if v_owner_id validator_obj = owner \<or> v_account_id validator_obj = account
          then Some validator_obj else None)"

definition list_fields ::
  "(string list \<Rightarrow> string list) \<Rightarrow> DataStore \<Rightarrow> string \<Rightarrow> string \<Rightarrow> int \<Rightarrow> int \<Rightarrow> string option
     \<Rightarrow> exc + Field list" where
  "list_fields iter_set s owner account limit offset namespace =
     (let field_ids = iter_set (dict_get (fields_by_owner s) owner
                                @ dict_get (fields_by_account s) account)
      in case lookup_all (fields_dict s) field_ids of
           Inl e \<Rightarrow> Inl e
         | Inr result \<Rightarrow>
             (let result = (if truthy_str namespace
                            then filter (\<lambda>f. f_namespace f = the namespace) result else result)
              in Inr (py_slice result offset (offset + limit))))"

definition get_field :: "DataStore \<Rightarrow> string \<Rightarrow> string \<Rightarrow> string \<Rightarrow> Field option" where
  "get_field s field_id owner account =
     (case fields_dict s field_id of
        None \<Rightarrow> None
      | Some field_obj \<Rightarrow>
          if f_owner_id field_obj = owner \<or> f_account_id field_obj = account
          then Some field_obj else None)"

definition list_objects ::
  "(string list \<Rightarrow> string list) \<Rightarrow> DataStore \<Rightarrow> string \<Rightarrow> string \<Rightarrow> int \<Rightarrow> int \<Rightarrow> string option
     \<Rightarrow> exc + Object list" where
  "list_objects iter_set s owner account limit offset namespace =
     (let object_ids = iter_set (dict_get (objects_by_owner s) owner
                                 @ dict_get (objects_by_account s) account)
      in case lookup_all (objects s) object_ids of
           Inl e \<Rightarrow> Inl e
         | Inr result \<Rightarrow>
             (let result = (if truthy_str namespace
                            then filter (\<lambda>ob. o_namespace ob = the namespace) result else result)
              in Inr (py_slice result offset (offset + limit))))"

definition get_object :: "DataStore \<Rightarrow> string \<Rightarrow> string \<Rightarrow> string \<Rightarrow> Object option" where
  "get_object s object_id owner account =
     (case objects s object_id of
        None \<Rightarrow> None
      | Some object_obj \<Rightarrow>
          if o_owner_id object_obj = owner \<or> o_account_id object_obj = account
          then Some object_obj else None)"

section \<open>Specification vocabulary for the data store\<close>

text \<open>
  What a store built by \<open>load_fixtures\<close> always satisfies, per kind: an entity is stored
  under its own id, and every id listed in an index is a key of the primary dictionary.
\<close>

definition keyed_by :: "('a \<Rightarrow> string) \<Rightarrow> (string \<rightharpoonup> 'a) \<Rightarrow> bool" where
  "keyed_by ident d = (\<forall>k v. d k = Some v \<longrightarrow> ident v = k)"

definition index_closed :: "(string \<rightharpoonup> 'a) \<Rightarrow> (string \<rightharpoonup> string list) \<Rightarrow> bool" where
  "index_closed d ix = (\<forall>k. set (dict_get ix k) \<subseteq> dom d)"

definition kind_inv ::
  "('a \<Rightarrow> string) \<Rightarrow> (string \<rightharpoonup> 'a) \<Rightarrow> (string \<rightharpoonup> string list) \<Rightarrow> (string \<rightharpoonup> string list) \<Rightarrow> bool" where
  "kind_inv ident d by_owner by_account =
     (keyed_by ident d \<and> index_closed d by_owner \<and> index_closed d by_account)"

definition store_inv :: "DataStore \<Rightarrow> bool" where
  "store_inv s =
     (kind_inv t_id (types s) (types_by_owner s) (types_by_account s)
      \<and> kind_inv v_id (validators s) (validators_by_owner s) (validators_by_account s)
      \<and> kind_inv f_id (fields_dict s) (fields_by_owner s) (fields_by_account s)
      \<and> kind_inv o_id (objects s) (objects_by_owner s) (objects_by_account s))"

text \<open>
  The list pipeline as the code runs it: the entities stored under \<open>ids\<close>, filtered on
  the namespace attribute when a non-empty namespace is given, then the positions
  \<open>[offset, offset + limit)\<close>. For Type and Validator the attribute is absent and reads as
  the empty string.
\<close>

definition list_pipeline ::
  "('a \<Rightarrow> string) \<Rightarrow> (string \<rightharpoonup> 'a) \<Rightarrow> string list \<Rightarrow> int \<Rightarrow> int \<Rightarrow> string option \<Rightarrow> 'a list" where
  "list_pipeline ns_attr d ids limit offset namespace =
     (let es = List.map_filter d ids;
          es' = (case namespace of
                   None \<Rightarrow> es
                 | Some n \<Rightarrow> if n = [] then es else filter (\<lambda>e. ns_attr e = n) es)
      in take (nat limit) (drop (nat offset) es'))"

text \<open>
  The same pipeline in the words of the specification: whenever a namespace is supplied,
  only the entities whose namespace equals it are retained.
\<close>

definition spec_list_pipeline ::
  "('a \<Rightarrow> string) \<Rightarrow> (string \<rightharpoonup> 'a) \<Rightarrow> string list \<Rightarrow> int \<Rightarrow> int \<Rightarrow> string option \<Rightarrow> 'a list" where
  "spec_list_pipeline ns_attr d ids limit offset namespace =
     (let es = List.map_filter d ids;
          es' = (case namespace of
                   None \<Rightarrow> es
                 | Some n \<Rightarrow> filter (\<lambda>e. ns_attr e = n) es)
      in take (nat limit) (drop (nat offset) es'))"

text \<open>
  A list result conforms when the ids enumerate, without duplicates, the union of the
  owner's and the account's index entries, and the result is the pipeline over them, no
  exception, at most \<open>limit\<close> entities.
\<close>

definition list_conforms ::
  "(string list \<Rightarrow> string list) \<Rightarrow> ('a \<Rightarrow> string) \<Rightarrow> (string \<rightharpoonup> 'a)
     \<Rightarrow> (string \<rightharpoonup> string list) \<Rightarrow> (string \<rightharpoonup> string list)
     \<Rightarrow> string \<Rightarrow> string \<Rightarrow> int \<Rightarrow> int \<Rightarrow> string option \<Rightarrow> exc + 'a list \<Rightarrow> bool" where
  "list_conforms iter_set ns_attr d by_owner by_account owner account limit offset namespace result =
     (let ids = iter_set (dict_get by_owner owner @ dict_get by_account account)
      in distinct ids
         \<and> set ids = set (dict_get by_owner owner) \<union> set (dict_get by_account account)
         \<and> set ids \<subseteq> dom d
         \<and> result = Inr (list_pipeline ns_attr d ids limit offset namespace)
         \<and> length (list_pipeline ns_attr d ids limit offset namespace) \<le> nat limit)"

text \<open>
  A dataset is malformed when some raw record of some kind is rejected by its model. The part
  of a dataset that \<open>load_fixtures\<close> gets to load: the records before the first rejected
  one, in the order types, validators, fields, objects.
\<close>

definition wf_prefix :: "(exc + 'a) list \<Rightarrow> (exc + 'a) list" where
  "wf_prefix rs = takeWhile (\<lambda>r. \<not> isl r) rs"

definition malformed :: "fixtures_data \<Rightarrow> bool" where
  "malformed data =
     (list_ex isl (data_types data) \<or> list_ex isl (data_validators data)
      \<or> list_ex isl (data_fields data) \<or> list_ex isl (data_objects data))"

definition loaded_part :: "fixtures_data \<Rightarrow> fixtures_data" where
  "loaded_part data =
     \<lparr> data_types = wf_prefix (data_types data),
       data_validators =
         (if list_ex isl (data_types data) then [] else wf_prefix (data_validators data)),
       data_fields =
         (if list_ex isl (data_types data) \<or> list_ex isl (data_validators data) then []
          else wf_prefix (data_fields data)),
       data_objects =
         (if list_ex isl (data_types data) \<or> list_ex isl (data_validators data)
             \<or> list_ex isl (data_fields data) then []
          else wf_prefix (data_objects data)) \<rparr>"

text \<open>
  Sample data, after the examples of the models and the fixtures the tests use: one entity
  of each kind owned by \<open>user_test123\<close> in \<open>acct_test123\<close>, a second caller, and a
  dataset whose second type record lacks a required attribute.
\<close>

definition type_1 :: Type where
  "type_1 = \<lparr> t_id = ''type_1'', t_name = ''String'', t_python_type = ''str'',
     t_description = ''Text string type'', t_is_builtin = True, t_is_nullable = False,
     t_default_value = Some (SStr ''''), t_owner_id = ''user_test123'',
     t_account_id = ''acct_test123'', t_created_at = ''2024-01-01T00:00:00Z'',
     t_updated_at = ''2024-01-01T00:00:00Z'' \<rparr>"

definition val_1 :: Validator where
  "val_1 = \<lparr> v_id = ''val_1'', v_name = ''Email Format'', v_validator_type = PATTERN,
     v_description = ''Validates email addresses'', v_config = [(''pattern'', JStr ''.+@.+'')],
     v_error_message = ''Invalid email format'', v_owner_id = ''user_test123'',
     v_account_id = ''acct_test123'', v_created_at = ''2024-01-01T00:00:00Z'',
     v_updated_at = ''2024-01-01T00:00:00Z'' \<rparr>"

definition field_1 :: Field where
  "field_1 = \<lparr> f_id = ''field_1'', f_name = ''email'', f_type_id = ''type_1'',
     f_description = ''User email address'', f_is_required = True, f_is_unique = True,
     f_is_indexed = True, f_default_value = None, f_validator_ids = [''val_1'', ''val_2''],
     f_namespace = ''user'', f_owner_id = ''user_test123'', f_account_id = ''acct_test123'',
     f_created_at = ''2024-01-01T00:00:00Z'', f_updated_at = ''2024-01-01T00:00:00Z'' \<rparr>"

definition obj_1 :: Object where
  "obj_1 = \<lparr> o_id = ''obj_1'', o_name = ''User'', o_description = ''User account object'',
     o_field_ids = [''field_1'', ''field_2'', ''field_3'', ''field_4''], o_namespace = ''user'',
     o_table_name = ''users'', o_is_active = True, o_owner_id = ''user_test123'',
     o_account_id = ''acct_test123'', o_created_at = ''2024-01-01T00:00:00Z'',
     o_updated_at = ''2024-01-01T00:00:00Z'' \<rparr>"

definition sample_data :: fixtures_data where
  "sample_data = \<lparr> data_types = [Inr type_1], data_validators = [Inr val_1],
     data_fields = [Inr field_1], data_objects = [Inr obj_1] \<rparr>"

definition sample_store :: DataStore where
  "sample_store = fst (load_fixtures DataStore_init (Parsed sample_data))"

definition broken_data :: fixtures_data where
  "broken_data = \<lparr> data_types = [Inr type_1, Inl (ValidationError ''owner_id: Field required'')],
     data_validators = [Inr val_1], data_fields = [Inr field_1], data_objects = [Inr obj_1] \<rparr>"

definition other_user :: UserClaims where
  "other_user = \<lparr> user_id = ''user_other456'', account_id = ''acct_other456'',
     email = Some ''other@example.com'' \<rparr>"

section \<open>Token verification (\<open>mock_api/auth/clerk.py\<close>)\<close>

text \<open>
  \<open>d.get(k)\<close> on a decoded JSON object: the value, or \<open>None\<close>, which is \<open>JNull\<close> here.
  A JSON object is taken with distinct keys, as a parser produces it.
\<close>

definition py_get :: "(string \<times> json) list \<Rightarrow> string \<Rightarrow> json" where
  "py_get d k = (case map_of d k of None \<Rightarrow> JNull | Some v \<Rightarrow> v)"

text \<open>
  Python's \<open>==\<close> on two decoded JSON values: booleans, integers and floats compare by
  numeric value, everything else by structure (for arrays and objects this is exact when no
  number of one type meets an equal number of another inside them).
\<close>

fun num_of :: "json \<Rightarrow> real option" where
  "num_of (JBool b) = Some (if b then 1 else 0)"
| "num_of (JInt n) = Some (of_int n)"
| "num_of (JFloat x) = Some x"
| "num_of v = None"

definition py_eq :: "json \<Rightarrow> json \<Rightarrow> bool" where
  "py_eq a b =
     (case (num_of a, num_of b) of
        (Some x, Some y) \<Rightarrow> x = y
      | (None, None) \<Rightarrow> a = b
      | _ \<Rightarrow> False)"

text \<open>
  \<open>for x in v\<close> on a decoded JSON value: a list gives its items, a string its characters,
  an object its keys; anything else is not iterable.
\<close>

fun py_iter :: "json \<Rightarrow> exc + json list" where
  "py_iter (JArr xs) = Inr xs"
| "py_iter (JStr s) = Inr (map (\<lambda>c. JStr [c]) s)"
| "py_iter (JObj kvs) = Inr (map (\<lambda>kv. JStr (fst kv)) kvs)"
| "py_iter v = Inl (TypeError ''object is not iterable'')"

text \<open>The dictionary returned by \<open>get_clerk_config\<close>.\<close>

record clerk_config =
  jwks_url :: string
  issuer :: string
  require_auth :: string

text \<open>The key object that \<open>RSAAlgorithm.from_jwk\<close> builds from a JWK.\<close>

datatype signing_key = RSAPublicKey json

text \<open>
  What the code takes from outside, as parameters: the clock (\<open>time.time()\<close>, a float read
  as a real number), the HTTP fetch (\<open>httpx.get\<close>, \<open>raise_for_status\<close> and
  \<open>response.json()\<close> in one, \<open>Inl\<close> the exception raised), three PyJWT functions
  (\<open>jwt_decode token key issuer\<close> is \<open>jwt.decode\<close> with RS256, that issuer and no audience
  check), and \<open>str(e)\<close> of an exception.
\<close>

record env =
  now :: real
  httpx_get_json :: "string \<Rightarrow> exc + json"
  get_unverified_header :: "string \<Rightarrow> exc + (string \<times> json) list"
  from_jwk :: "json \<Rightarrow> exc + signing_key"
  jwt_decode :: "string \<Rightarrow> signing_key \<Rightarrow> string \<Rightarrow> exc + (string \<times> json) list"
  exc_str :: "exc \<Rightarrow> string"

text \<open>The globals \<open>_jwks_cache\<close> and \<open>_jwks_cache_time\<close>, and their initial values.\<close>

record jwks_state =
  jwks_cache :: json
  jwks_cache_time :: real

definition jwks_state_init :: jwks_state where
  "jwks_state_init = \<lparr> jwks_cache = JObj [], jwks_cache_time = 0 \<rparr>"

definition JWKS_CACHE_TTL :: real where
  "JWKS_CACHE_TTL = 3600"

text \<open>\<open>fetch_jwks\<close>: the globals afterwards, and the key set returned or the exception.\<close>

definition fetch_jwks :: "env \<Rightarrow> clerk_config \<Rightarrow> jwks_state \<Rightarrow> jwks_state \<times> (exc + json)" where
  "fetch_jwks w config st =
     (let current_time = now w
      in if truthy (jwks_cache st) \<and> current_time - jwks_cache_time st < JWKS_CACHE_TTL
         then (st, Inr (jwks_cache st))
         else if jwks_url config = [] then (st, Inr (JObj []))
         else (case httpx_get_json w (jwks_url config) of
                 Inr j \<Rightarrow> (st\<lparr> jwks_cache := j, jwks_cache_time := current_time \<rparr>, Inr j)
               | Inl e \<Rightarrow>
                   (st, Inl (HTTPException 503 (''Failed to fetch JWKS: '' @ exc_str w e)))))"

text \<open>\<open>jwks.get("keys", [])\<close>: only a dictionary has \<open>get\<close>.\<close>

fun jwks_keys :: "json \<Rightarrow> exc + json" where
  "jwks_keys (JObj kvs) = Inr (case map_of kvs ''keys'' of None \<Rightarrow> JArr [] | Some v \<Rightarrow> v)"
| "jwks_keys v = Inl (AttributeError ''object has no attribute get'')"

text \<open>
  The loop over the keys: the first key whose \<open>kid\<close> equals the token's is converted and
  the loop left; \<open>None\<close> when no key matches. A key object is always truthy, so
  \<open>if not signing_key\<close> tests for \<open>None\<close>.
\<close>

fun find_key :: "env \<Rightarrow> json \<Rightarrow> json list \<Rightarrow> exc + signing_key option" where
  "find_key w kid [] = Inr None"
| "find_key w kid (key # keys) =
     (case key of
        JObj kvs \<Rightarrow>
          if py_eq (py_get kvs ''kid'') kid
          then (case from_jwk w key of Inl e \<Rightarrow> Inl e | Inr k \<Rightarrow> Inr (Some k))
          else find_key w kid keys
      | _ \<Rightarrow> Inl (AttributeError ''object has no attribute get''))"

definition get_signing_key ::
  "env \<Rightarrow> clerk_config \<Rightarrow> jwks_state \<Rightarrow> string \<Rightarrow> jwks_state \<times> (exc + signing_key)" where
  "get_signing_key w config st token =
     (case fetch_jwks w config st of
        (st', Inl e) \<Rightarrow> (st', Inl e)
      | (st', Inr jwks) \<Rightarrow>
          if \<not> truthy jwks then (st', Inl (HTTPException 500 ''JWKS not available''))
          else
            (case get_unverified_header w token of
               Inl e \<Rightarrow> (st', Inl (HTTPException 401 (''Invalid token header: '' @ exc_str w e)))
             | Inr unverified_header \<Rightarrow>
                 (let kid = py_get unverified_header ''kid''
                  in case jwks_keys jwks of
                       Inl e \<Rightarrow> (st', Inl e)
                     | Inr keys_value \<Rightarrow>
                         (case py_iter keys_value of
                            Inl e \<Rightarrow> (st', Inl e)
                          | Inr keys \<Rightarrow>
                              (case find_key w kid keys of
                                 Inl e \<Rightarrow> (st', Inl e)
                               | Inr None \<Rightarrow>
                                   (st', Inl (HTTPException 401 ''Unable to find signing key''))
                               | Inr (Some signing_key) \<Rightarrow> (st', Inr signing_key))))))"

text \<open>
  The \<open>except\<close> clauses of \<open>verify_token\<close>, in their order. Every exception raised inside
  the \<open>try\<close> block passes through them, the \<open>HTTPException\<close>s of \<open>get_signing_key\<close>
  included: they are \<open>Exception\<close>s and no \<open>InvalidTokenError\<close>, so the last clause takes them.
\<close>

fun verify_token_except :: "env \<Rightarrow> exc \<Rightarrow> exc" where
  "verify_token_except w (ExpiredSignatureError m) = HTTPException 401 ''Token has expired''"
| "verify_token_except w (InvalidIssuerError m) = HTTPException 401 ''Invalid token issuer''"
| "verify_token_except w (InvalidTokenError m) =
     HTTPException 401 (''Invalid token: '' @ exc_str w (InvalidTokenError m))"
| "verify_token_except w e = HTTPException 401 (''Authentication failed: '' @ exc_str w e)"

definition test_claims :: "(string \<times> json) list" where
  "test_claims = [(''sub'', JStr ''user_test123''), (''org_id'', JStr ''acct_test123''),
                  (''email'', JStr ''test@example.com'')]"

definition verify_token ::
  "env \<Rightarrow> clerk_config \<Rightarrow> jwks_state \<Rightarrow> string \<Rightarrow> jwks_state \<times> (exc + (string \<times> json) list)" where
  "verify_token w config st token =
     (if require_auth config = ''false'' then (st, Inr test_claims)
      else
        (case get_signing_key w config st token of
           (st', Inl e) \<Rightarrow> (st', Inl (verify_token_except w e))
         | (st', Inr signing_key) \<Rightarrow>
             (case jwt_decode w token signing_key (issuer config) of
                Inl e \<Rightarrow> (st', Inl (verify_token_except w e))
              | Inr payload \<Rightarrow> (st', Inr payload))))"

text \<open>
  \<open>UserClaims(user_id=..., account_id=..., email=...)\<close> on values taken from the claims:
  pydantic (version 2, which the models' \<open>model_config\<close> needs) accepts a string for a
  \<open>str\<close> attribute, a string or \<open>None\<close> for \<open>Optional[str]\<close>, and raises otherwise.
\<close>

fun UserClaims_init :: "json \<Rightarrow> json \<Rightarrow> json \<Rightarrow> exc + UserClaims" where
  "UserClaims_init (JStr u) (JStr a) JNull = Inr \<lparr> user_id = u, account_id = a, email = None \<rparr>"
| "UserClaims_init (JStr u) (JStr a) (JStr e) = Inr \<lparr> user_id = u, account_id = a, email = Some e \<rparr>"
| "UserClaims_init u a e = Inl (ValidationError ''UserClaims'')"

text \<open>
  \<open>get_current_user\<close>, on the token \<open>credentials.credentials\<close>. The locals \<open>user_id\<close>,
  \<open>account_id\<close> and \<open>email\<close> are written \<open>uid\<close>, \<open>aid\<close> and \<open>mail\<close>; \<open>x or y\<close> is
  \<open>x\<close> when \<open>x\<close> is truthy and \<open>y\<close> otherwise.
\<close>

definition get_current_user ::
  "env \<Rightarrow> clerk_config \<Rightarrow> jwks_state \<Rightarrow> string \<Rightarrow> jwks_state \<times> (exc + UserClaims)" where
  "get_current_user w config st token =
     (if require_auth config = ''false''
      then (st, Inr \<lparr> user_id = ''user_test123'', account_id = ''acct_test123'',
                      email = Some ''test@example.com'' \<rparr>)
      else
        (case verify_token w config st token of
           (st', Inl e) \<Rightarrow> (st', Inl e)
         | (st', Inr claims) \<Rightarrow>
             (let uid = py_get claims ''sub'';
                  aid = (if truthy (py_get claims ''org_id'') then py_get claims ''org_id''
                         else py_get claims ''sub'');
                  mail = py_get claims ''email''
              in if \<not> truthy uid
                 then (st', Inl (HTTPException 401 ''Invalid token claims: missing user_id''))
                 else (st', UserClaims_init uid aid mail))))"

subsection \<open>Stand-ins for evaluation\<close>

text \<open>
  To run the model, the outside is replaced by simple stand-ins: \<open>str\<close> of an
  \<open>HTTPException\<close> is its status code and detail, as Starlette prints it; a token is
  either \<open>not-a-jwt\<close>, whose header does not parse, or the key identifier of its own
  header; every JWK converts to a key; the fetch and the decoding give what the stand-in is
  built with. \<open>held_keys\<close> is a cache holding one key, fetched at time 1000;
  \<open>fresh_env\<close> reads the clock 1000 seconds later, inside the hour.
\<close>

definition stub_str :: "exc \<Rightarrow> string" where
  "stub_str e =
     (case e of
        HTTPException c d \<Rightarrow>
          (if c = 401 then ''401: '' else if c = 500 then ''500: '' else ''503: '') @ d
      | InvalidTokenError m \<Rightarrow> m
      | OtherException m \<Rightarrow> m
      | _ \<Rightarrow> [])"

definition stub_header :: "string \<Rightarrow> exc + (string \<times> json) list" where
  "stub_header token =
     (if token = ''not-a-jwt'' then Inl (InvalidTokenError ''Not enough segments'')
      else Inr [(''alg'', JStr ''RS256''), (''kid'', JStr token)])"

definition stub_env :: "real \<Rightarrow> exc + json \<Rightarrow> exc + (string \<times> json) list \<Rightarrow> env" where
  "stub_env t remote decoded =
     \<lparr> now = t, httpx_get_json = (\<lambda>url. remote), get_unverified_header = stub_header,
       from_jwk = (\<lambda>key. Inr (RSAPublicKey key)), jwt_decode = (\<lambda>token key iss. decoded),
       exc_str = stub_str \<rparr>"

definition key_1 :: json where
  "key_1 = JObj [(''kid'', JStr ''key_1''), (''kty'', JStr ''RSA'')]"

definition held_keys :: jwks_state where
  "held_keys = \<lparr> jwks_cache = JObj [(''keys'', JArr [key_1])], jwks_cache_time = 1000 \<rparr>"

definition clerk :: clerk_config where
  "clerk = \<lparr> jwks_url = ''https://clerk.example/.well-known/jwks.json'',
     issuer = ''https://clerk.example'', require_auth = ''true'' \<rparr>"

definition bypass :: clerk_config where
  "bypass = \<lparr> jwks_url = [], issuer = [], require_auth = ''false'' \<rparr>"

definition unreachable :: "exc + json" where
  "unreachable = Inl (OtherException ''connection refused'')"

definition fresh_env :: "exc + (string \<times> json) list \<Rightarrow> env" where
  "fresh_env decoded = stub_env 2000 unreachable decoded"

section \<open>Properties of the data store\<close>

subsection \<open>Slices and lookups\<close>

lemma py_slice_nonneg:
  assumes "0 \<le> offset" "0 \<le> limit"
  shows "py_slice xs offset (offset + limit) = take (nat limit) (drop (nat offset) xs)"
proof (cases "nat offset \<le> length xs")
  case True
  have l: "slice_bound (length xs) offset = nat offset"
    using assms True by (simp add: slice_bound_def)
  have h: "slice_bound (length xs) (offset + limit) = min (nat offset + nat limit) (length xs)"
    using assms by (simp add: slice_bound_def nat_add_distrib)
  show ?thesis
  proof (cases "nat offset + nat limit \<le> length xs")
    case True
    then show ?thesis by (simp add: py_slice_def l h)
  next
    case False
    then have "length (drop (nat offset) xs) \<le> nat limit" by simp
    with False show ?thesis by (simp add: py_slice_def l h)
  qed
next
  case False
  then show ?thesis using assms
    by (simp add: py_slice_def slice_bound_def)
qed

lemma lookup_all_map_filter:
  "set ks \<subseteq> dom d \<Longrightarrow> lookup_all d ks = Inr (List.map_filter d ks)"
  by (induction ks) (auto simp: List.map_filter_simps)

subsection \<open>The invariant of loaded stores\<close>

lemma index_closed_step:
  "index_closed d ix \<Longrightarrow> index_closed (d(i \<mapsto> e)) (dd_append ix k i)"
  by (auto simp: index_closed_def dd_append_def dict_get_def split: option.splits if_splits)

lemma keyed_by_step: "keyed_by ident d \<Longrightarrow> keyed_by ident (d(ident e \<mapsto> e))"
  by (auto simp: keyed_by_def)

lemma kind_inv_step:
  "kind_inv ident d bo ba \<Longrightarrow>
   kind_inv ident (d(ident e \<mapsto> e)) (dd_append bo ow (ident e)) (dd_append ba ac (ident e))"
  by (simp add: kind_inv_def index_closed_step keyed_by_step)

lemma kind_inv_empty: "kind_inv ident Map.empty Map.empty Map.empty"
  by (simp add: kind_inv_def keyed_by_def index_closed_def dict_get_def)

lemma store_inv_init: "store_inv DataStore_init"
  by (simp add: store_inv_def DataStore_init_def kind_inv_empty)

lemma load_types_inv: "store_inv s \<Longrightarrow> store_inv (fst (load_types rs s))"
proof (induction rs s rule: load_types.induct)
  case (3 type_obj rs s)
  have "store_inv (s\<lparr> types := (types s)(t_id type_obj \<mapsto> type_obj),
           types_by_owner := dd_append (types_by_owner s) (t_owner_id type_obj) (t_id type_obj),
           types_by_account := dd_append (types_by_account s) (t_account_id type_obj) (t_id type_obj) \<rparr>)"
    using "3.prems" by (simp add: store_inv_def kind_inv_step)
  then show ?case using "3.IH" by simp
qed simp_all

lemma load_validators_inv: "store_inv s \<Longrightarrow> store_inv (fst (load_validators rs s))"
proof (induction rs s rule: load_validators.induct)
  case (3 e rs s)
  have "store_inv (s\<lparr> validators := (validators s)(v_id e \<mapsto> e),
           validators_by_owner := dd_append (validators_by_owner s) (v_owner_id e) (v_id e),
           validators_by_account := dd_append (validators_by_account s) (v_account_id e) (v_id e) \<rparr>)"
    using "3.prems" by (simp add: store_inv_def kind_inv_step)
  then show ?case using "3.IH" by simp
qed simp_all

lemma load_fields_inv: "store_inv s \<Longrightarrow> store_inv (fst (load_fields rs s))"
proof (induction rs s rule: load_fields.induct)
  case (3 e rs s)
  have "store_inv (s\<lparr> fields_dict := (fields_dict s)(f_id e \<mapsto> e),
           fields_by_owner := dd_append (fields_by_owner s) (f_owner_id e) (f_id e),
           fields_by_account := dd_append (fields_by_account s) (f_account_id e) (f_id e) \<rparr>)"
    using "3.prems" by (simp add: store_inv_def kind_inv_step)
  then show ?case using "3.IH" by simp
qed simp_all

lemma load_objects_inv: "store_inv s \<Longrightarrow> store_inv (fst (load_objects rs s))"
proof (induction rs s rule: load_objects.induct)
  case (3 e rs s)
  have "store_inv (s\<lparr> objects := (objects s)(o_id e \<mapsto> e),
           objects_by_owner := dd_append (objects_by_owner s) (o_owner_id e) (o_id e),
           objects_by_account := dd_append (objects_by_account s) (o_account_id e) (o_id e) \<rparr>)"
    using "3.prems" by (simp add: store_inv_def kind_inv_step)
  then show ?case using "3.IH" by simp
qed simp_all

lemma load_fixtures_inv:
  assumes "store_inv s"
  shows "store_inv (fst (load_fixtures s fx))"
proof (cases fx)
  case (Parsed data)
  obtain s1 r1 where l1: "load_types (data_types data) s = (s1, r1)" by force
  obtain s2 r2 where l2: "load_validators (data_validators data) s1 = (s2, r2)" by force
  obtain s3 r3 where l3: "load_fields (data_fields data) s2 = (s3, r3)" by force
  obtain s4 r4 where l4: "load_objects (data_objects data) s3 = (s4, r4)" by force
  have i1: "store_inv s1" using load_types_inv [OF assms, of "data_types data"] l1 by simp
  have i2: "store_inv s2" using load_validators_inv [OF i1, of "data_validators data"] l2 by simp
  have i3: "store_inv s3" using load_fields_inv [OF i2, of "data_fields data"] l3 by simp
  have i4: "store_inv s4" using load_objects_inv [OF i3, of "data_objects data"] l4 by simp
  show ?thesis
    using Parsed l1 l2 l3 l4 i1 i2 i3 i4
    by (simp add: load_fixtures_def split: option.splits)
qed (simp_all add: load_fixtures_def assms)

lemma keyed_ran: "keyed_by ident d \<Longrightarrow> e \<in> ran d \<Longrightarrow> d (ident e) = Some e"
  by (auto simp: keyed_by_def ran_def)

lemma lookup_all_index:
  assumes "set_order iter_set" and "kind_inv ident d bo ba"
  shows "lookup_all d (iter_set (dict_get bo owner @ dict_get ba account))
        = Inr (List.map_filter d (iter_set (dict_get bo owner @ dict_get ba account)))"
  using assms
  by (intro lookup_all_map_filter) (auto simp: set_order_def kind_inv_def index_closed_def)

lemma list_body_conforms:
  assumes so: "set_order iter_set" and o: "0 \<le> offset" and l: "0 \<le> limit"
    and ki: "kind_inv ident d by_owner by_account"
    and res: "result =
      (case lookup_all d (iter_set (dict_get by_owner owner @ dict_get by_account account)) of
         Inl e \<Rightarrow> Inl e
       | Inr es \<Rightarrow> Inr (py_slice (if truthy_str namespace
                                   then filter (\<lambda>e. ns_attr e = the namespace) es else es)
                               offset (offset + limit)))"
  shows "list_conforms iter_set ns_attr d by_owner by_account owner account limit offset namespace result"
proof -
  let ?ids = "iter_set (dict_get by_owner owner @ dict_get by_account account)"
  have d: "distinct ?ids" and s: "set ?ids = set (dict_get by_owner owner) \<union> set (dict_get by_account account)"
    using so by (simp_all add: set_order_def)
  have sub: "set ?ids \<subseteq> dom d"
    using ki s by (auto simp: kind_inv_def index_closed_def)
  have lk: "lookup_all d ?ids = Inr (List.map_filter d ?ids)"
    by (rule lookup_all_map_filter [OF sub])
  have r: "result = Inr (list_pipeline ns_attr d ?ids limit offset namespace)"
    unfolding res lk using o l
    by (cases namespace) (simp_all add: list_pipeline_def py_slice_nonneg)
  have len: "length (list_pipeline ns_attr d ?ids limit offset namespace) \<le> nat limit"
    by (simp add: list_pipeline_def Let_def)
  show ?thesis
    unfolding list_conforms_def Let_def using d s sub r len by blast
qed

subsection \<open>The sample store\<close>

lemmas sample_defs = sample_store_def sample_data_def load_fixtures_def DataStore_init_def
  dd_append_def dict_get_def

lemma sample_types [simp]: "types sample_store = [''type_1'' \<mapsto> type_1]"
  by (simp add: sample_defs type_1_def)

lemma sample_validators [simp]: "validators sample_store = [''val_1'' \<mapsto> val_1]"
  by (simp add: sample_defs val_1_def)

lemma sample_fields [simp]: "fields_dict sample_store = [''field_1'' \<mapsto> field_1]"
  by (simp add: sample_defs field_1_def)

lemma sample_objects [simp]: "objects sample_store = [''obj_1'' \<mapsto> obj_1]"
  by (simp add: sample_defs obj_1_def)

lemma sample_types_ix [simp]:
  "types_by_owner sample_store = [''user_test123'' \<mapsto> [''type_1'']]"
  "types_by_account sample_store = [''acct_test123'' \<mapsto> [''type_1'']]"
  by (simp_all add: sample_defs type_1_def)

lemma sample_validators_ix [simp]:
  "validators_by_owner sample_store = [''user_test123'' \<mapsto> [''val_1'']]"
  "validators_by_account sample_store = [''acct_test123'' \<mapsto> [''val_1'']]"
  by (simp_all add: sample_defs val_1_def)

lemma sample_fields_ix [simp]:
  "fields_by_owner sample_store = [''user_test123'' \<mapsto> [''field_1'']]"
  "fields_by_account sample_store = [''acct_test123'' \<mapsto> [''field_1'']]"
  by (simp_all add: sample_defs field_1_def)

lemma sample_objects_ix [simp]:
  "objects_by_owner sample_store = [''user_test123'' \<mapsto> [''obj_1'']]"
  "objects_by_account sample_store = [''acct_test123'' \<mapsto> [''obj_1'']]"
  by (simp_all add: sample_defs obj_1_def)

lemma set_order_remdups: "set_order remdups"
  by (simp add: set_order_def)

lemma py_slice_all: "py_slice [x] 0 100 = [x]" "py_slice [] 0 100 = []"
  by (simp_all add: py_slice_def slice_bound_def)

subsection \<open>Loading stops at the first malformed record\<close>

lemma load_types_prefix:
  "fst (load_types rs s) = fst (load_types (wf_prefix rs) s)
   \<and> snd (load_types (wf_prefix rs) s) = None
   \<and> (snd (load_types rs s) = None \<longleftrightarrow> \<not> list_ex isl rs)"
  by (induction rs s rule: load_types.induct) (simp_all add: wf_prefix_def)

lemma load_validators_prefix:
  "fst (load_validators rs s) = fst (load_validators (wf_prefix rs) s)
   \<and> snd (load_validators (wf_prefix rs) s) = None
   \<and> (snd (load_validators rs s) = None \<longleftrightarrow> \<not> list_ex isl rs)"
  by (induction rs s rule: load_validators.induct) (simp_all add: wf_prefix_def)

lemma load_fields_prefix:
  "fst (load_fields rs s) = fst (load_fields (wf_prefix rs) s)
   \<and> snd (load_fields (wf_prefix rs) s) = None
   \<and> (snd (load_fields rs s) = None \<longleftrightarrow> \<not> list_ex isl rs)"
  by (induction rs s rule: load_fields.induct) (simp_all add: wf_prefix_def)

lemma load_objects_prefix:
  "fst (load_objects rs s) = fst (load_objects (wf_prefix rs) s)
   \<and> snd (load_objects (wf_prefix rs) s) = None
   \<and> (snd (load_objects rs s) = None \<longleftrightarrow> \<not> list_ex isl rs)"
  by (induction rs s rule: load_objects.induct) (simp_all add: wf_prefix_def)

lemma wf_prefix_id: "\<not> list_ex isl rs \<Longrightarrow> wf_prefix rs = rs"
  by (induction rs) (auto simp: wf_prefix_def)

lemma load_fixtures_Parsed:
  "load_fixtures s (Parsed data) =
     (let r1 = load_types (data_types data) s in
      if snd r1 \<noteq> None then r1 else
      let r2 = load_validators (data_validators data) (fst r1) in
      if snd r2 \<noteq> None then r2 else
      let r3 = load_fields (data_fields data) (fst r2) in
      if snd r3 \<noteq> None then r3 else
      load_objects (data_objects data) (fst r3))"
  by (auto simp: load_fixtures_def Let_def split: prod.splits option.splits)

subsection \<open>Claims\<close>

text \<open>
  Claim C1. In a store built by \<open>load_fixtures\<close>, for every entity \<open>E\<close> of any of the
  four kinds and every caller \<open>C\<close>, \<open>get(E.id, C)\<close> returns \<open>E\<close> if
  \<open>E.owner_id = C.user_id\<close> or \<open>E.account_id = C.account_id\<close>, and \<open>None\<close> otherwise;
  an id that is in no dictionary gives \<open>None\<close> too, so an entity that exists but is not
  visible cannot be told from one that does not exist.
\<close>

theorem get_returns_entity_iff_visible:
  fixes C :: UserClaims
  assumes "s = fst (load_fixtures DataStore_init fx)"
  shows
   "(Et \<in> ran (types s) \<longrightarrow>
       get_type s (t_id Et) (user_id C) (account_id C)
         = (if t_owner_id Et = user_id C \<or> t_account_id Et = account_id C then Some Et else None))
    \<and> (Ev \<in> ran (validators s) \<longrightarrow>
       get_validator s (v_id Ev) (user_id C) (account_id C)
         = (if v_owner_id Ev = user_id C \<or> v_account_id Ev = account_id C then Some Ev else None))
    \<and> (Ef \<in> ran (fields_dict s) \<longrightarrow>
       get_field s (f_id Ef) (user_id C) (account_id C)
         = (if f_owner_id Ef = user_id C \<or> f_account_id Ef = account_id C then Some Ef else None))
    \<and> (Eo \<in> ran (objects s) \<longrightarrow>
       get_object s (o_id Eo) (user_id C) (account_id C)
         = (if o_owner_id Eo = user_id C \<or> o_account_id Eo = account_id C then Some Eo else None))
    \<and> (k \<notin> dom (types s) \<longrightarrow> get_type s k (user_id C) (account_id C) = None)
    \<and> (k \<notin> dom (validators s) \<longrightarrow> get_validator s k (user_id C) (account_id C) = None)
    \<and> (k \<notin> dom (fields_dict s) \<longrightarrow> get_field s k (user_id C) (account_id C) = None)
    \<and> (k \<notin> dom (objects s) \<longrightarrow> get_object s k (user_id C) (account_id C) = None)"
proof -
  have inv: "store_inv s"
    using assms load_fixtures_inv [OF store_inv_init] by simp
  have kt: "keyed_by t_id (types s)" and kv: "keyed_by v_id (validators s)"
    and kf: "keyed_by f_id (fields_dict s)" and ko: "keyed_by o_id (objects s)"
    using inv by (simp_all add: store_inv_def kind_inv_def)
  have t: "Et \<in> ran (types s) \<longrightarrow>
       get_type s (t_id Et) (user_id C) (account_id C)
         = (if t_owner_id Et = user_id C \<or> t_account_id Et = account_id C then Some Et else None)"
    using keyed_ran [OF kt] by (simp add: get_type_def)
  have v: "Ev \<in> ran (validators s) \<longrightarrow>
       get_validator s (v_id Ev) (user_id C) (account_id C)
         = (if v_owner_id Ev = user_id C \<or> v_account_id Ev = account_id C then Some Ev else None)"
    using keyed_ran [OF kv] by (simp add: get_validator_def)
  have f: "Ef \<in> ran (fields_dict s) \<longrightarrow>
       get_field s (f_id Ef) (user_id C) (account_id C)
         = (if f_owner_id Ef = user_id C \<or> f_account_id Ef = account_id C then Some Ef else None)"
    using keyed_ran [OF kf] by (simp add: get_field_def)
  have ob: "Eo \<in> ran (objects s) \<longrightarrow>
       get_object s (o_id Eo) (user_id C) (account_id C)
         = (if o_owner_id Eo = user_id C \<or> o_account_id Eo = account_id C then Some Eo else None)"
    using keyed_ran [OF ko] by (simp add: get_object_def)
  have absent:
    "k \<notin> dom (types s) \<longrightarrow> get_type s k (user_id C) (account_id C) = None"
    "k \<notin> dom (validators s) \<longrightarrow> get_validator s k (user_id C) (account_id C) = None"
    "k \<notin> dom (fields_dict s) \<longrightarrow> get_field s k (user_id C) (account_id C) = None"
    "k \<notin> dom (objects s) \<longrightarrow> get_object s k (user_id C) (account_id C) = None"
    by (simp_all add: get_type_def get_validator_def get_field_def get_object_def domIff)
  from t v f ob absent show ?thesis by blast
qed

text \<open>
  At the sample store: the four sample entities are stored, and the second caller, who
  shares neither owner nor account with them, gets \<open>None\<close> for \<open>type_1\<close> exactly as for
  an id that does not exist.
\<close>

theorem get_returns_entity_iff_visible_witness:
  "sample_store = fst (load_fixtures DataStore_init (Parsed sample_data))
   \<and> type_1 \<in> ran (types sample_store) \<and> val_1 \<in> ran (validators sample_store)
   \<and> field_1 \<in> ran (fields_dict sample_store) \<and> obj_1 \<in> ran (objects sample_store)
   \<and> ''type_nonexistent'' \<notin> dom (types sample_store)
   \<and> get_type sample_store ''type_1'' ''user_other456'' ''acct_other456'' = None
   \<and> get_type sample_store ''type_nonexistent'' ''user_other456'' ''acct_other456'' = None
   \<and> get_field sample_store ''field_1'' ''user_other456'' ''acct_other456'' = None"
proof -
  have r: "type_1 \<in> ran (types sample_store)" "val_1 \<in> ran (validators sample_store)"
    "field_1 \<in> ran (fields_dict sample_store)" "obj_1 \<in> ran (objects sample_store)"
    by simp_all
  have a: "''type_nonexistent'' \<notin> dom (types sample_store)" by simp
  show ?thesis
    using get_returns_entity_iff_visible [OF sample_store_def,
        where Et = type_1 and Ev = val_1 and Ef = field_1 and Eo = obj_1
          and k = "''type_nonexistent''" and C = other_user] r a
    by (simp add: other_user_def sample_store_def [symmetric] type_1_def field_1_def)
qed

text \<open>
  Claim C2, as amended. In a store built by \<open>load_fixtures\<close>, a non-empty namespace
  argument is accepted by all four list operations without an exception. For Type and
  Validator it is compared with the empty string that stands for the absent attribute, so
  the result is the empty sequence; for Field and Object the entities whose namespace
  equals the argument are retained, then sliced.
\<close>

theorem namespace_filter_by_kind:
  assumes "set_order iter_set" and "s = fst (load_fixtures DataStore_init fx)" and "n \<noteq> []"
  shows
   "list_types iter_set s owner account limit offset (Some n) = Inr []
    \<and> list_validators iter_set s owner account limit offset (Some n) = Inr []
    \<and> list_fields iter_set s owner account limit offset (Some n)
        = Inr (py_slice (filter (\<lambda>f. f_namespace f = n)
                 (List.map_filter (fields_dict s)
                    (iter_set (dict_get (fields_by_owner s) owner
                               @ dict_get (fields_by_account s) account))))
               offset (offset + limit))
    \<and> list_objects iter_set s owner account limit offset (Some n)
        = Inr (py_slice (filter (\<lambda>ob. o_namespace ob = n)
                 (List.map_filter (objects s)
                    (iter_set (dict_get (objects_by_owner s) owner
                               @ dict_get (objects_by_account s) account))))
               offset (offset + limit))"
proof -
  have inv: "store_inv s"
    using assms(2) load_fixtures_inv [OF store_inv_init] by simp
  note sub = lookup_all_index [OF assms(1)]
  have lt: "lookup_all (types s)
        (iter_set (dict_get (types_by_owner s) owner @ dict_get (types_by_account s) account))
      = Inr (List.map_filter (types s)
        (iter_set (dict_get (types_by_owner s) owner @ dict_get (types_by_account s) account)))"
    using inv by (intro sub [where ident = t_id]) (simp add: store_inv_def)
  have lv: "lookup_all (validators s)
        (iter_set (dict_get (validators_by_owner s) owner @ dict_get (validators_by_account s) account))
      = Inr (List.map_filter (validators s)
        (iter_set (dict_get (validators_by_owner s) owner @ dict_get (validators_by_account s) account)))"
    using inv by (intro sub [where ident = v_id]) (simp add: store_inv_def)
  have lf: "lookup_all (fields_dict s)
        (iter_set (dict_get (fields_by_owner s) owner @ dict_get (fields_by_account s) account))
      = Inr (List.map_filter (fields_dict s)
        (iter_set (dict_get (fields_by_owner s) owner @ dict_get (fields_by_account s) account)))"
    using inv by (intro sub [where ident = f_id]) (simp add: store_inv_def)
  have lo: "lookup_all (objects s)
        (iter_set (dict_get (objects_by_owner s) owner @ dict_get (objects_by_account s) account))
      = Inr (List.map_filter (objects s)
        (iter_set (dict_get (objects_by_owner s) owner @ dict_get (objects_by_account s) account)))"
    using inv by (intro sub [where ident = o_id]) (simp add: store_inv_def)
  have e: "py_slice ([]::'b list) off (off + lim) = []" for off lim
    by (simp add: py_slice_def)
  have t: "list_types iter_set s owner account limit offset (Some n) = Inr []"
    using assms(3) by (simp add: list_types_def lt e)
  have v: "list_validators iter_set s owner account limit offset (Some n) = Inr []"
    using assms(3) by (simp add: list_validators_def lv e)
  have f: "list_fields iter_set s owner account limit offset (Some n)
        = Inr (py_slice (filter (\<lambda>f. f_namespace f = n)
                 (List.map_filter (fields_dict s)
                    (iter_set (dict_get (fields_by_owner s) owner
                               @ dict_get (fields_by_account s) account))))
               offset (offset + limit))"
    using assms(3) by (simp add: list_fields_def lf)
  have ob: "list_objects iter_set s owner account limit offset (Some n)
        = Inr (py_slice (filter (\<lambda>ob. o_namespace ob = n)
                 (List.map_filter (objects s)
                    (iter_set (dict_get (objects_by_owner s) owner
                               @ dict_get (objects_by_account s) account))))
               offset (offset + limit))"
    using assms(3) by (simp add: list_objects_def lo)
  from t v f ob show ?thesis by blast
qed

text \<open>
  At the sample store with the namespace \<open>user\<close>: no type, and the field of that
  namespace.
\<close>

theorem namespace_filter_by_kind_witness:
  "set_order remdups \<and> sample_store = fst (load_fixtures DataStore_init (Parsed sample_data))
   \<and> ''user'' \<noteq> []
   \<and> list_types remdups sample_store ''user_test123'' ''acct_test123'' 100 0 (Some ''user'') = Inr []
   \<and> list_fields remdups sample_store ''user_test123'' ''acct_test123'' 100 0 (Some ''user'')
       = Inr [field_1]"
  using namespace_filter_by_kind [OF set_order_remdups sample_store_def,
      where n = "''user''" and owner = "''user_test123''" and account = "''acct_test123''"
        and limit = 100 and offset = 0]
  by (simp add: set_order_remdups sample_store_def [symmetric] dict_get_def
        List.map_filter_simps py_slice_all field_1_def)

text \<open>
  Claim C2 as stated fails: with the namespace \<open>user\<close> the caller who owns
  \<open>type_1\<close> and \<open>val_1\<close> gets an empty list of types and of validators, and the entity
  itself without the namespace argument.
\<close>

theorem namespace_on_types_counterexample:
  "list_types remdups sample_store ''user_test123'' ''acct_test123'' 100 0 (Some ''user'') = Inr []
   \<and> list_types remdups sample_store ''user_test123'' ''acct_test123'' 100 0 None = Inr [type_1]
   \<and> list_validators remdups sample_store ''user_test123'' ''acct_test123'' 100 0 (Some ''user'') = Inr []
   \<and> list_validators remdups sample_store ''user_test123'' ''acct_test123'' 100 0 None = Inr [val_1]"
  by (simp add: list_types_def list_validators_def dict_get_def py_slice_all)

text \<open>
  Claim C3, as amended. In a store built by \<open>load_fixtures\<close>, for every caller, every
  limit \<open>L \<ge> 0\<close> and every offset \<open>O \<ge> 0\<close>, each list operation returns, without raising, the
  following pipeline: the duplicate-free enumeration of the union of the by-owner index
  entry of the caller's user id and the by-account index entry of the caller's account id;
  the entities stored under these ids; when the namespace argument is a non-empty string,
  only those whose namespace attribute (the empty string for Type and Validator) equals it;
  then the positions \<open>[O, O + L)\<close>, which are at most \<open>L\<close> entities and fewer or none
  when the range runs past the end.
\<close>

theorem list_is_scoped_pipeline:
  assumes "set_order iter_set" and "0 \<le> offset" and "0 \<le> limit"
    and "s = fst (load_fixtures DataStore_init fx)"
  shows
   "list_conforms iter_set (\<lambda>t. []) (types s) (types_by_owner s) (types_by_account s)
      owner account limit offset namespace
      (list_types iter_set s owner account limit offset namespace)
    \<and> list_conforms iter_set (\<lambda>v. []) (validators s) (validators_by_owner s) (validators_by_account s)
      owner account limit offset namespace
      (list_validators iter_set s owner account limit offset namespace)
    \<and> list_conforms iter_set f_namespace (fields_dict s) (fields_by_owner s) (fields_by_account s)
      owner account limit offset namespace
      (list_fields iter_set s owner account limit offset namespace)
    \<and> list_conforms iter_set o_namespace (objects s) (objects_by_owner s) (objects_by_account s)
      owner account limit offset namespace
      (list_objects iter_set s owner account limit offset namespace)"
proof -
  have inv: "store_inv s"
    using assms(4) load_fixtures_inv [OF store_inv_init] by simp
  have t: "list_conforms iter_set (\<lambda>t. []) (types s) (types_by_owner s) (types_by_account s)
      owner account limit offset namespace
      (list_types iter_set s owner account limit offset namespace)"
    by (rule list_body_conforms [OF assms(1-3), where ident = t_id])
       (use inv in \<open>simp_all add: store_inv_def list_types_def Let_def eq_commute cong: sum.case_cong\<close>)
  have v: "list_conforms iter_set (\<lambda>v. []) (validators s) (validators_by_owner s) (validators_by_account s)
      owner account limit offset namespace
      (list_validators iter_set s owner account limit offset namespace)"
    by (rule list_body_conforms [OF assms(1-3), where ident = v_id])
       (use inv in \<open>simp_all add: store_inv_def list_validators_def Let_def eq_commute cong: sum.case_cong\<close>)
  have f: "list_conforms iter_set f_namespace (fields_dict s) (fields_by_owner s) (fields_by_account s)
      owner account limit offset namespace
      (list_fields iter_set s owner account limit offset namespace)"
    by (rule list_body_conforms [OF assms(1-3), where ident = f_id])
       (use inv in \<open>simp_all add: store_inv_def list_fields_def Let_def cong: sum.case_cong\<close>)
  have ob: "list_conforms iter_set o_namespace (objects s) (objects_by_owner s) (objects_by_account s)
      owner account limit offset namespace
      (list_objects iter_set s owner account limit offset namespace)"
    by (rule list_body_conforms [OF assms(1-3), where ident = o_id])
       (use inv in \<open>simp_all add: store_inv_def list_objects_def Let_def cong: sum.case_cong\<close>)
  from t v f ob show ?thesis by blast
qed

text \<open>
  At the sample store, limit 100 and offset 0: the namespace \<open>user\<close> keeps the sample
  field, the namespace \<open>game\<close> keeps nothing.
\<close>

theorem list_is_scoped_pipeline_witness:
  "set_order remdups \<and> (0::int) \<le> 0 \<and> (0::int) \<le> 100
   \<and> sample_store = fst (load_fixtures DataStore_init (Parsed sample_data))
   \<and> list_fields remdups sample_store ''user_test123'' ''acct_test123'' 100 0 (Some ''user'')
       = Inr [field_1]
   \<and> list_fields remdups sample_store ''user_test123'' ''acct_test123'' 100 0 (Some ''game'')
       = Inr []"
  using list_is_scoped_pipeline [OF set_order_remdups _ _ sample_store_def,
      where owner = "''user_test123''" and account = "''acct_test123''"
        and limit = 100 and offset = 0 and namespace = "Some ''user''"]
    list_is_scoped_pipeline [OF set_order_remdups _ _ sample_store_def,
      where owner = "''user_test123''" and account = "''acct_test123''"
        and limit = 100 and offset = 0 and namespace = "Some ''game''"]
  by (simp add: set_order_remdups sample_store_def [symmetric] list_conforms_def list_pipeline_def
        dict_get_def List.map_filter_simps field_1_def)

text \<open>
  Claim C3 as stated fails when the namespace supplied is the empty string: the code returns
  the field whose namespace is \<open>user\<close>, the pipeline that filters on exact equality with
  the supplied namespace returns nothing.
\<close>

theorem list_pipeline_counterexample:
  "list_fields remdups sample_store ''user_test123'' ''acct_test123'' 100 0 (Some []) = Inr [field_1]
   \<and> f_namespace field_1 = ''user''
   \<and> spec_list_pipeline f_namespace (fields_dict sample_store)
        (remdups (dict_get (fields_by_owner sample_store) ''user_test123''
                  @ dict_get (fields_by_account sample_store) ''acct_test123''))
        100 0 (Some []) = []"
  by (simp add: list_fields_def dict_get_def py_slice_all spec_list_pipeline_def
        List.map_filter_simps field_1_def)

text \<open>
  Claim C9, as amended. A load of a dataset with at least one malformed record raises; it
  does not skip the record. The store is not restored: after the call it holds exactly what
  a successful load of the records before the first malformed one leaves in it.
\<close>

theorem load_fails_fast_keeps_prefix:
  "(malformed data \<longrightarrow> (\<exists>e. snd (load_fixtures s (Parsed data)) = Some e))
   \<and> snd (load_fixtures s (Parsed (loaded_part data))) = None
   \<and> fst (load_fixtures s (Parsed data)) = fst (load_fixtures s (Parsed (loaded_part data)))"
proof -
  note t = load_types_prefix [of "data_types data" s]
  let ?s1 = "fst (load_types (data_types data) s)"
  note v = load_validators_prefix [of "data_validators data" ?s1]
  let ?s2 = "fst (load_validators (data_validators data) ?s1)"
  note f = load_fields_prefix [of "data_fields data" ?s2]
  let ?s3 = "fst (load_fields (data_fields data) ?s2)"
  note ob = load_objects_prefix [of "data_objects data" ?s3]
  show ?thesis
  proof (cases "list_ex isl (data_types data)")
    case True
    with t show ?thesis
      by (auto simp: load_fixtures_Parsed loaded_part_def malformed_def Let_def)
  next
    case nt: False
    show ?thesis
    proof (cases "list_ex isl (data_validators data)")
      case True
      with nt t v show ?thesis
        by (auto simp: load_fixtures_Parsed loaded_part_def malformed_def Let_def wf_prefix_id)
    next
      case nv: False
      show ?thesis
      proof (cases "list_ex isl (data_fields data)")
        case True
        with nt nv t v f show ?thesis
          by (auto simp: load_fixtures_Parsed loaded_part_def malformed_def Let_def wf_prefix_id)
      next
        case nf: False
        with nt nv t v f ob show ?thesis
          by (auto simp: load_fixtures_Parsed loaded_part_def malformed_def Let_def wf_prefix_id)
      qed
    qed
  qed
qed

text \<open>
  At the dataset whose second type record is malformed: the load raises the validation
  error, and the part loaded is the first type record alone.
\<close>

theorem load_fails_fast_keeps_prefix_witness:
  "malformed broken_data
   \<and> snd (load_fixtures DataStore_init (Parsed broken_data))
       = Some (ValidationError ''owner_id: Field required'')
   \<and> data_types (loaded_part broken_data) = [Inr type_1]
   \<and> data_validators (loaded_part broken_data) = []
   \<and> fst (load_fixtures DataStore_init (Parsed broken_data))
       = fst (load_fixtures DataStore_init (Parsed (loaded_part broken_data)))"
  using load_fails_fast_keeps_prefix [of broken_data DataStore_init]
  by (simp add: malformed_def broken_data_def loaded_part_def wf_prefix_def load_fixtures_def)

text \<open>
  Claim C9 as stated fails: after the failed load of that dataset into an empty store,
  \<open>type_1\<close> is in the primary dictionary and in the owner index, and the caller gets it,
  where the store before the load had nothing; the global store of \<open>get_data_store\<close> is
  left assigned to this partly loaded store.
\<close>

theorem failed_load_leaves_entities_counterexample:
  "snd (load_fixtures DataStore_init (Parsed broken_data))
     = Some (ValidationError ''owner_id: Field required'')
   \<and> get_type (fst (load_fixtures DataStore_init (Parsed broken_data)))
       ''type_1'' ''user_test123'' ''acct_test123'' = Some type_1
   \<and> dict_get (types_by_owner (fst (load_fixtures DataStore_init (Parsed broken_data))))
       ''user_test123'' = [''type_1'']
   \<and> get_type DataStore_init ''type_1'' ''user_test123'' ''acct_test123'' = None
   \<and> fst (get_data_store None (Parsed broken_data))
       = Some (fst (load_fixtures DataStore_init (Parsed broken_data)))"
  by (simp add: broken_data_def load_fixtures_def get_type_def get_data_store_def
        DataStore_init_def dd_append_def dict_get_def type_1_def)

text \<open>
  Claim C10. For every caller, limit and offset, and for each of the four kinds, listing with
  the namespace argument equal to the empty string returns exactly what listing without a
  namespace argument returns: the empty string is falsy, so for Field and Object it does not
  select the entities whose namespace is empty, it switches the filter off.
\<close>

theorem list_empty_namespace_unfiltered:
  "list_types iter_set s owner account limit offset (Some [])
     = list_types iter_set s owner account limit offset None
   \<and> list_validators iter_set s owner account limit offset (Some [])
     = list_validators iter_set s owner account limit offset None
   \<and> list_fields iter_set s owner account limit offset (Some [])
     = list_fields iter_set s owner account limit offset None
   \<and> list_objects iter_set s owner account limit offset (Some [])
     = list_objects iter_set s owner account limit offset None"
  by (simp add: list_types_def list_validators_def list_fields_def list_objects_def
           cong: sum.case_cong)

section \<open>Properties of token verification\<close>

lemma UserClaims_init_Inr:
  "UserClaims_init u a m = Inr uc \<Longrightarrow>
     u = JStr (user_id uc) \<and> a = JStr (account_id uc)
     \<and> m = (case email uc of None \<Rightarrow> JNull | Some x \<Rightarrow> JStr x)"
  by (induction u a m rule: UserClaims_init.induct) auto

lemma fresh_fetch [simp]:
  "fetch_jwks (fresh_env d) clerk held_keys = (held_keys, Inr (JObj [(''keys'', JArr [key_1])]))"
  by (simp add: fetch_jwks_def fresh_env_def stub_env_def held_keys_def JWKS_CACHE_TTL_def)

lemma fresh_key [simp]:
  "get_signing_key (fresh_env d) clerk held_keys ''key_1'' = (held_keys, Inr (RSAPublicKey key_1))"
  by (simp add: get_signing_key_def)
     (simp add: fresh_env_def stub_env_def stub_header_def py_get_def py_eq_def key_1_def)

lemma fresh_verify [simp]:
  "verify_token (fresh_env (Inr claims)) clerk held_keys ''key_1'' = (held_keys, Inr claims)"
  by (simp add: verify_token_def) (simp add: clerk_def fresh_env_def stub_env_def)

text \<open>
  What \<open>verify_token\<close> makes of the outcomes of its \<open>try\<close> block when verification
  is required: an \<open>HTTPException\<close> of \<open>get_signing_key\<close> is caught by the last
  \<open>except\<close> clause and raised again as a 401 whose detail starts with
  \<open>Authentication failed\<close>; the two decoding errors with a clause of their own keep their
  detail.
\<close>

lemma verify_token_wraps_key_errors:
  assumes "require_auth config \<noteq> ''false''"
    and "get_signing_key w config st token = (st', Inl (HTTPException c d))"
  shows "verify_token w config st token
           = (st', Inl (HTTPException 401
                (''Authentication failed: '' @ exc_str w (HTTPException c d))))"
  using assms by (simp add: verify_token_def)

lemma verify_token_decode_errors:
  assumes "require_auth config \<noteq> ''false''"
    and "get_signing_key w config st token = (st', Inr key)"
  shows "jwt_decode w token key (issuer config) = Inl (ExpiredSignatureError m) \<Longrightarrow>
           verify_token w config st token = (st', Inl (HTTPException 401 ''Token has expired''))"
    and "jwt_decode w token key (issuer config) = Inl (InvalidIssuerError m) \<Longrightarrow>
           verify_token w config st token = (st', Inl (HTTPException 401 ''Invalid token issuer''))"
  using assms by (simp_all add: verify_token_def)

text \<open>
  Claim C4. When \<open>fetch_jwks\<close> attempts a fetch (the cache is empty or at least 3600
  seconds old, and the URL is set) and the fetch fails, the call raises the 503
  \<open>HTTPException\<close> (the key source is unavailable) whatever the cache holds: a key set
  fetched earlier stays in the cache and is not returned.
\<close>

theorem failed_fetch_raises_despite_cache:
  assumes "\<not> truthy (jwks_cache st) \<or> 3600 \<le> now w - jwks_cache_time st"
    and "jwks_url config \<noteq> []"
    and "httpx_get_json w (jwks_url config) = Inl e"
  shows "fetch_jwks w config st
           = (st, Inl (HTTPException 503 (''Failed to fetch JWKS: '' @ exc_str w e)))"
  using assms by (auto simp: fetch_jwks_def JWKS_CACHE_TTL_def Let_def)

text \<open>
  With a key set fetched at time 1000 still in the cache, at time 4600, the key source
  refusing the connection.
\<close>

theorem failed_fetch_raises_despite_cache_witness:
  "truthy (jwks_cache held_keys)
   \<and> 3600 \<le> now (stub_env 4600 unreachable (Inr [])) - jwks_cache_time held_keys
   \<and> jwks_url clerk \<noteq> []
   \<and> fetch_jwks (stub_env 4600 unreachable (Inr [])) clerk held_keys
       = (held_keys, Inl (HTTPException 503 ''Failed to fetch JWKS: connection refused''))"
  using failed_fetch_raises_despite_cache
          [of held_keys "stub_env 4600 unreachable (Inr [])" clerk "OtherException ''connection refused''"]
  by (simp add: held_keys_def stub_env_def unreachable_def clerk_def stub_str_def)

text \<open>
  Claim C5. When the require-authentication flag is \<open>false\<close>, \<open>get_current_user\<close>
  returns the fixed test identity (\<open>user_test123\<close>, \<open>acct_test123\<close>,
  \<open>test@example.com\<close>) and \<open>verify_token\<close> the claims of that identity, for every
  credential, the empty string included; neither the credential nor the key cache is
  looked at.
\<close>

theorem bypass_returns_test_identity:
  assumes "require_auth config = ''false''"
  shows "get_current_user w config st token
           = (st, Inr \<lparr> user_id = ''user_test123'', account_id = ''acct_test123'',
                         email = Some ''test@example.com'' \<rparr>)
         \<and> verify_token w config st token
           = (st, Inr [(''sub'', JStr ''user_test123''), (''org_id'', JStr ''acct_test123''),
                       (''email'', JStr ''test@example.com'')])"
  using assms by (simp add: get_current_user_def verify_token_def test_claims_def)

text \<open>
  With the empty credential, an unreachable key source and a decoder that rejects
  everything.
\<close>

theorem bypass_returns_test_identity_witness:
  "require_auth bypass = ''false''
   \<and> get_current_user (stub_env 0 unreachable (Inl (InvalidTokenError ''bad''))) bypass
        jwks_state_init []
       = (jwks_state_init, Inr \<lparr> user_id = ''user_test123'', account_id = ''acct_test123'',
                                  email = Some ''test@example.com'' \<rparr>)"
  using bypass_returns_test_identity
          [of bypass "stub_env 0 unreachable (Inl (InvalidTokenError ''bad''))" jwks_state_init "[]"]
  by (simp add: bypass_def)

text \<open>
  Claim C6, as amended. For every claims payload that \<open>verify_token\<close> returns: when the
  subject claim is a non-empty string, and the organization and the email claim are each
  absent or a string, \<open>get_current_user\<close> produces the identity whose \<open>user_id\<close> is the
  subject claim, whose \<open>account_id\<close> is the organization claim when that claim is present
  and truthy (a non-empty string) and the subject claim otherwise, and whose \<open>email\<close> is the
  email claim, \<open>None\<close> when it is absent. Every identity the call produces is of this form.
  With no subject claim the call raises the 401 \<open>HTTPException\<close> instead.
\<close>

theorem claims_map_to_identity:
  assumes "require_auth config \<noteq> ''false''"
    and "verify_token w config st token = (st', Inr claims)"
  shows
   "(\<forall>u. py_get claims ''sub'' = JStr u \<and> u \<noteq> []
          \<and> (py_get claims ''org_id'' = JNull \<or> (\<exists>og. py_get claims ''org_id'' = JStr og))
          \<and> (py_get claims ''email'' = JNull \<or> (\<exists>m. py_get claims ''email'' = JStr m)) \<longrightarrow>
        get_current_user w config st token
          = (st', Inr \<lparr> user_id = u,
                         account_id = (case py_get claims ''org_id'' of
                                         JStr og \<Rightarrow> if og = [] then u else og
                                       | _ \<Rightarrow> u),
                         email = (case py_get claims ''email'' of
                                    JStr m \<Rightarrow> Some m
                                  | _ \<Rightarrow> None) \<rparr>))
    \<and> (\<forall>uc. snd (get_current_user w config st token) = Inr uc \<longrightarrow>
        py_get claims ''sub'' = JStr (user_id uc)
        \<and> (if truthy (py_get claims ''org_id'') then py_get claims ''org_id''
            else py_get claims ''sub'') = JStr (account_id uc)
        \<and> py_get claims ''email'' = (case email uc of None \<Rightarrow> JNull | Some x \<Rightarrow> JStr x))
    \<and> (map_of claims ''sub'' = None \<longrightarrow>
          get_current_user w config st token
            = (st', Inl (HTTPException 401 ''Invalid token claims: missing user_id'')))"
proof -
  have g: "get_current_user w config st token =
     (if \<not> truthy (py_get claims ''sub'')
      then (st', Inl (HTTPException 401 ''Invalid token claims: missing user_id''))
      else (st', UserClaims_init (py_get claims ''sub'')
                  (if truthy (py_get claims ''org_id'') then py_get claims ''org_id''
                   else py_get claims ''sub'')
                  (py_get claims ''email'')))"
    using assms by (simp add: get_current_user_def Let_def)
  have a: "\<forall>uc. snd (get_current_user w config st token) = Inr uc \<longrightarrow>
        py_get claims ''sub'' = JStr (user_id uc)
        \<and> (if truthy (py_get claims ''org_id'') then py_get claims ''org_id''
            else py_get claims ''sub'') = JStr (account_id uc)
        \<and> py_get claims ''email'' = (case email uc of None \<Rightarrow> JNull | Some x \<Rightarrow> JStr x)"
  proof (intro allI impI)
    fix uc
    assume r: "snd (get_current_user w config st token) = Inr uc"
    then have t: "truthy (py_get claims ''sub'')"
      unfolding g by (auto split: if_splits)
    from r t have "UserClaims_init (py_get claims ''sub'')
                  (if truthy (py_get claims ''org_id'') then py_get claims ''org_id''
                   else py_get claims ''sub'')
                  (py_get claims ''email'') = Inr uc"
      unfolding g by simp
    from UserClaims_init_Inr [OF this]
    show "py_get claims ''sub'' = JStr (user_id uc)
        \<and> (if truthy (py_get claims ''org_id'') then py_get claims ''org_id''
            else py_get claims ''sub'') = JStr (account_id uc)
        \<and> py_get claims ''email'' = (case email uc of None \<Rightarrow> JNull | Some x \<Rightarrow> JStr x)"
      by blast
  qed
  have b: "\<forall>u. py_get claims ''sub'' = JStr u \<and> u \<noteq> []
          \<and> (py_get claims ''org_id'' = JNull \<or> (\<exists>og. py_get claims ''org_id'' = JStr og))
          \<and> (py_get claims ''email'' = JNull \<or> (\<exists>m. py_get claims ''email'' = JStr m)) \<longrightarrow>
        get_current_user w config st token
          = (st', Inr \<lparr> user_id = u,
                         account_id = (case py_get claims ''org_id'' of
                                         JStr og \<Rightarrow> if og = [] then u else og
                                       | _ \<Rightarrow> u),
                         email = (case py_get claims ''email'' of
                                    JStr m \<Rightarrow> Some m
                                  | _ \<Rightarrow> None) \<rparr>)"
    unfolding g by auto
  have c: "map_of claims ''sub'' = None \<longrightarrow>
          get_current_user w config st token
            = (st', Inl (HTTPException 401 ''Invalid token claims: missing user_id''))"
    unfolding g by (simp add: py_get_def)
  from b a c show ?thesis by blast
qed

text \<open>
  With a payload holding subject, organization and email, the account is the organization;
  with the subject alone, the account is the subject.
\<close>

theorem claims_map_to_identity_witness:
  "require_auth clerk \<noteq> ''false''
   \<and> verify_token (fresh_env (Inr [(''sub'', JStr ''user_1''), (''org_id'', JStr ''org_9''),
                                    (''email'', JStr ''a@b.c'')])) clerk held_keys ''key_1''
       = (held_keys, Inr [(''sub'', JStr ''user_1''), (''org_id'', JStr ''org_9''),
                          (''email'', JStr ''a@b.c'')])
   \<and> get_current_user (fresh_env (Inr [(''sub'', JStr ''user_1''), (''org_id'', JStr ''org_9''),
                                        (''email'', JStr ''a@b.c'')])) clerk held_keys ''key_1''
       = (held_keys, Inr \<lparr> user_id = ''user_1'', account_id = ''org_9'',
                             email = Some ''a@b.c'' \<rparr>)
   \<and> verify_token (fresh_env (Inr [(''sub'', JStr ''user_1'')])) clerk held_keys ''key_1''
       = (held_keys, Inr [(''sub'', JStr ''user_1'')])
   \<and> get_current_user (fresh_env (Inr [(''sub'', JStr ''user_1'')])) clerk held_keys ''key_1''
       = (held_keys, Inr \<lparr> user_id = ''user_1'', account_id = ''user_1'', email = None \<rparr>)"
proof -
  have r: "require_auth clerk \<noteq> ''false''" by (simp add: clerk_def)
  show ?thesis
    using claims_map_to_identity [OF r fresh_verify,
            of "[(''sub'', JStr ''user_1''), (''org_id'', JStr ''org_9''), (''email'', JStr ''a@b.c'')]"]
          claims_map_to_identity [OF r fresh_verify, of "[(''sub'', JStr ''user_1'')]"] r
    by (simp add: py_get_def)
qed

text \<open>
  Claim C6 as stated fails when the organization claim is present and empty: the account
  is the subject, not the organization claim.
\<close>

theorem empty_org_claim_counterexample:
  "map_of [(''sub'', JStr ''user_1''), (''org_id'', JStr [])] ''org_id'' = Some (JStr [])
   \<and> verify_token (fresh_env (Inr [(''sub'', JStr ''user_1''), (''org_id'', JStr [])]))
        clerk held_keys ''key_1''
       = (held_keys, Inr [(''sub'', JStr ''user_1''), (''org_id'', JStr [])])
   \<and> get_current_user (fresh_env (Inr [(''sub'', JStr ''user_1''), (''org_id'', JStr [])]))
        clerk held_keys ''key_1''
       = (held_keys, Inr \<lparr> user_id = ''user_1'', account_id = ''user_1'', email = None \<rparr>)"
  by (simp add: get_current_user_def) (simp add: clerk_def py_get_def)

text \<open>
  \<open>get_signing_key\<close> obtains the key set before it parses the header: for a credential
  whose header fails to parse it raises the error of the key cache when the fetch fails, the
  500 \<open>JWKS not available\<close> when the key set is empty, and otherwise the 401
  \<open>Invalid token header\<close>. Whichever it is, \<open>verify_token\<close> raises a 401
  \<open>Authentication failed\<close> in its place, in every state of the key cache.
\<close>

lemma header_parsed_after_key_fetch:
  assumes "get_unverified_header w token = Inl e"
  shows "get_signing_key w config st token =
     (case fetch_jwks w config st of
        (st', Inl fe) \<Rightarrow> (st', Inl fe)
      | (st', Inr jwks) \<Rightarrow>
          if truthy jwks
          then (st', Inl (HTTPException 401 (''Invalid token header: '' @ exc_str w e)))
          else (st', Inl (HTTPException 500 ''JWKS not available'')))"
  using assms by (simp add: get_signing_key_def split: prod.splits sum.splits)

lemma fetch_jwks_raises_503:
  "fetch_jwks w config st = (st', Inl fe) \<Longrightarrow> \<exists>d. fe = HTTPException 503 d"
  by (auto simp: fetch_jwks_def Let_def split: if_splits sum.splits)

lemma unparsable_header_never_reported:
  assumes "require_auth config \<noteq> ''false''"
    and "get_unverified_header w token = Inl e"
  shows "\<exists>c d. snd (verify_token w config st token)
           = Inl (HTTPException 401 (''Authentication failed: '' @ exc_str w (HTTPException c d)))"
proof -
  obtain st' r where f: "fetch_jwks w config st = (st', r)" by force
  have "\<exists>c d. get_signing_key w config st token = (st', Inl (HTTPException c d))"
  proof (cases r)
    case (Inl fe)
    with f fetch_jwks_raises_503 [of w config st st' fe] show ?thesis
      by (auto simp: header_parsed_after_key_fetch [OF assms(2)])
  next
    case (Inr jwks)
    with f show ?thesis
      by (simp add: header_parsed_after_key_fetch [OF assms(2)])
  qed
  then obtain c d where "get_signing_key w config st token = (st', Inl (HTTPException c d))"
    by blast
  from verify_token_wraps_key_errors [OF assms(1) this] show ?thesis by auto
qed

text \<open>
  Claim C7, at its failing input. Verification is required, the cache holds a fresh key set,
  and the header of the credential \<open>not-a-jwt\<close> does not parse. \<open>get_signing_key\<close> raises
  the 401 \<open>Invalid token header\<close> (the credential is malformed), and \<open>verify_token\<close>, which
  calls it inside its \<open>try\<close> block, catches that exception in its last \<open>except\<close> clause and
  raises the generic 401 \<open>Authentication failed\<close> in its place. With an empty cache and an
  unreachable key source the header is not parsed at all, and the 503 of the failed fetch is
  replaced in the same way.
\<close>

theorem malformed_header_error_is_rewrapped:
  "get_unverified_header (fresh_env (Inr [])) ''not-a-jwt''
     = Inl (InvalidTokenError ''Not enough segments'')
   \<and> get_signing_key (fresh_env (Inr [])) clerk held_keys ''not-a-jwt''
       = (held_keys, Inl (HTTPException 401 ''Invalid token header: Not enough segments''))
   \<and> verify_token (fresh_env (Inr [])) clerk held_keys ''not-a-jwt''
       = (held_keys,
          Inl (HTTPException 401
                 ''Authentication failed: 401: Invalid token header: Not enough segments''))
   \<and> verify_token (stub_env 0 unreachable (Inr [])) clerk jwks_state_init ''not-a-jwt''
       = (jwks_state_init,
          Inl (HTTPException 401
                 ''Authentication failed: 503: Failed to fetch JWKS: connection refused''))"
proof -
  have h: "get_unverified_header (fresh_env (Inr [])) ''not-a-jwt''
     = Inl (InvalidTokenError ''Not enough segments'')"
    by (simp add: fresh_env_def stub_env_def stub_header_def)
  have k: "get_signing_key (fresh_env (Inr [])) clerk held_keys ''not-a-jwt''
       = (held_keys, Inl (HTTPException 401 ''Invalid token header: Not enough segments''))"
    by (simp add: get_signing_key_def h) (simp add: fresh_env_def stub_env_def stub_str_def)
  have v: "verify_token (fresh_env (Inr [])) clerk held_keys ''not-a-jwt''
       = (held_keys,
          Inl (HTTPException 401
                 ''Authentication failed: 401: Invalid token header: Not enough segments''))"
    by (simp add: verify_token_def k) (simp add: clerk_def fresh_env_def stub_env_def stub_str_def)
  have k0: "get_signing_key (stub_env 0 unreachable (Inr [])) clerk jwks_state_init ''not-a-jwt''
       = (jwks_state_init, Inl (HTTPException 503 ''Failed to fetch JWKS: connection refused''))"
    by (simp add: get_signing_key_def fetch_jwks_def)
       (simp add: stub_env_def stub_header_def jwks_state_init_def clerk_def unreachable_def
          stub_str_def)
  have v0: "verify_token (stub_env 0 unreachable (Inr [])) clerk jwks_state_init ''not-a-jwt''
       = (jwks_state_init,
          Inl (HTTPException 401
                 ''Authentication failed: 503: Failed to fetch JWKS: connection refused''))"
    by (simp add: verify_token_def k0) (simp add: clerk_def stub_env_def stub_str_def)
  from h k v v0 show ?thesis by blast
qed

text \<open>
  Claim C8, at its failing input. Verification is required, the cache holds a key set with
  the one key \<open>key_1\<close>, and the credential names \<open>key_2\<close>. \<open>get_signing_key\<close> raises
  the 401 \<open>Unable to find signing key\<close>, and \<open>verify_token\<close>, which calls it inside its
  \<open>try\<close> block, catches that exception in its last \<open>except\<close> clause and raises the
  generic 401 \<open>Authentication failed\<close> in its place.
\<close>

theorem missing_key_error_is_rewrapped:
  "get_unverified_header (fresh_env (Inr [])) ''key_2''
     = Inr [(''alg'', JStr ''RS256''), (''kid'', JStr ''key_2'')]
   \<and> get_signing_key (fresh_env (Inr [])) clerk held_keys ''key_2''
       = (held_keys, Inl (HTTPException 401 ''Unable to find signing key''))
   \<and> verify_token (fresh_env (Inr [])) clerk held_keys ''key_2''
       = (held_keys,
          Inl (HTTPException 401 ''Authentication failed: 401: Unable to find signing key''))"
proof -
  have h: "get_unverified_header (fresh_env (Inr [])) ''key_2''
     = Inr [(''alg'', JStr ''RS256''), (''kid'', JStr ''key_2'')]"
    by (simp add: fresh_env_def stub_env_def stub_header_def)
  have k: "get_signing_key (fresh_env (Inr [])) clerk held_keys ''key_2''
       = (held_keys, Inl (HTTPException 401 ''Unable to find signing key''))"
    by (simp add: get_signing_key_def h) (simp add: py_get_def py_eq_def key_1_def)
  have v: "verify_token (fresh_env (Inr [])) clerk held_keys ''key_2''
       = (held_keys,
          Inl (HTTPException 401 ''Authentication failed: 401: Unable to find signing key''))"
    by (simp add: verify_token_def k) (simp add: clerk_def fresh_env_def stub_env_def stub_str_def)
  from h k v show ?thesis by blast
qed

end
